theory Spec2Isabelle
  imports Complex_Main "HOL-Library.Log_Nat"
begin

section \<open>Python values, exceptions and loops\<close>

text \<open>
  The exceptions the two source files can raise.  \<open>Exception\<close> carries the message of
  \<^verbatim>\<open>raise Exception(...)\<close>, \<open>ValueError\<close> the message of the \<^verbatim>\<open>ValueError\<close>
  raised by \<^verbatim>\<open>load_keyedvectors\<close> or by \<^verbatim>\<open>np.stack\<close>.
\<close>

datatype error =
    ZeroDivisionError
  | IndexError
  | KeyError
  | StopIteration
  | AssertionError
  | ValueError string
  | Exception string

text \<open>
  The scalars the scorers compute with.  Python's own \<^verbatim>\<open>int\<close> and \<^verbatim>\<open>float\<close> raise
  \<^verbatim>\<open>ZeroDivisionError\<close> when divided by zero; a numpy scalar does not raise: it
  yields \<^verbatim>\<open>nan\<close> or \<^verbatim>\<open>inf\<close> (and a warning).  Floating-point values are modelled
  as reals; \<open>None\<close> stands for a numpy result that is not a finite number, which
  numpy's arithmetic keeps non-finite.
\<close>

datatype number = PyInt int | PyFloat real | NpFloat "real option"

fun num_val :: "number \<Rightarrow> real option" where
  "num_val (PyInt a) = Some (of_int a)"
| "num_val (PyFloat a) = Some a"
| "num_val (NpFloat x) = x"

fun opt_add :: "real option \<Rightarrow> real option \<Rightarrow> real option" where
  "opt_add (Some a) (Some b) = Some (a + b)"
| "opt_add _ _ = None"

fun num_add :: "number \<Rightarrow> number \<Rightarrow> number" where
  "num_add (PyInt a) (PyInt b) = PyInt (a + b)"
| "num_add (PyInt a) (PyFloat b) = PyFloat (of_int a + b)"
| "num_add (PyFloat a) (PyInt b) = PyFloat (a + of_int b)"
| "num_add (PyFloat a) (PyFloat b) = PyFloat (a + b)"
| "num_add (NpFloat x) y = NpFloat (opt_add x (num_val y))"
| "num_add x (NpFloat y) = NpFloat (opt_add (num_val x) y)"

text \<open>\<^verbatim>\<open>1 - x\<close>.\<close>

fun one_minus :: "number \<Rightarrow> number" where
  "one_minus (PyInt a) = PyInt (1 - a)"
| "one_minus (PyFloat a) = PyFloat (1 - a)"
| "one_minus (NpFloat x) = NpFloat (map_option (\<lambda>a. 1 - a) x)"

text \<open>\<^verbatim>\<open>x / n\<close> for a counter \<open>n\<close> (a Python \<^verbatim>\<open>int\<close>).\<close>

fun truediv :: "number \<Rightarrow> nat \<Rightarrow> error + number" where
  "truediv (PyInt a) n =
     (if n = 0 then Inl ZeroDivisionError else Inr (PyFloat (of_int a / of_nat n)))"
| "truediv (PyFloat a) n =
     (if n = 0 then Inl ZeroDivisionError else Inr (PyFloat (a / of_nat n)))"
| "truediv (NpFloat x) n =
     (if n = 0 then Inr (NpFloat None) else Inr (NpFloat (map_option (\<lambda>a. a / of_nat n) x)))"

text \<open>A \<^verbatim>\<open>for\<close> loop over a list whose body may raise: the first exception ends it.\<close>

fun foldM :: "('a \<Rightarrow> 's \<Rightarrow> error + 's) \<Rightarrow> 'a list \<Rightarrow> 's \<Rightarrow> error + 's" where
  "foldM f [] s = Inr s"
| "foldM f (x # xs) s = (case f x s of Inl e \<Rightarrow> Inl e | Inr s' \<Rightarrow> foldM f xs s')"

text \<open>\<^verbatim>\<open>itertools.combinations(xs, 2)\<close>: the pairs of positions \<open>i < j\<close>, in index order.\<close>

fun combinations2 :: "'a list \<Rightarrow> ('a \<times> 'a) list" where
  "combinations2 [] = []"
| "combinations2 (x # xs) = map (Pair x) xs @ combinations2 xs"

text \<open>The slice \<^verbatim>\<open>xs[:k]\<close>; a negative \<open>k\<close> counts from the end.\<close>

definition slice_to :: "int \<Rightarrow> 'a list \<Rightarrow> 'a list" where
  "slice_to k xs = (if 0 \<le> k then take (nat k) xs else take (nat (int (length xs) + k)) xs)"

text \<open>
  \<^verbatim>\<open>model_output\<close> is a dictionary; the scorers read the keys \<^verbatim>\<open>'topics'\<close> and
  \<^verbatim>\<open>'topic-word-distribution'\<close>.  A missing key is \<open>None\<close>.
\<close>

record model_output =
  topics :: "string list list option"
  topic_word_distribution :: "real list list option"

section \<open>similarity\_metrics.py: the ranked-overlap wrappers\<close>

text \<open>
  The three wrappers subclass metrics of \<^verbatim>\<open>octis.evaluation_metrics.diversity_metrics\<close>,
  which is not part of the sources at hand; the inherited \<^verbatim>\<open>score\<close> is the parameter
  \<open>super_score\<close>.  An exception of the inherited method passes through the wrapper.
\<close>

definition WordEmbeddingsRBOMatch_score ::
  "(model_output \<Rightarrow> error + number) \<Rightarrow> model_output \<Rightarrow> error + number" where
  "WordEmbeddingsRBOMatch_score super_score mo =
     (case super_score mo of Inl e \<Rightarrow> Inl e | Inr d \<Rightarrow> Inr (one_minus d))"

definition WordEmbeddingsRBOCentroid_score ::
  "(model_output \<Rightarrow> error + number) \<Rightarrow> model_output \<Rightarrow> error + number" where
  "WordEmbeddingsRBOCentroid_score super_score mo =
     (case super_score mo of Inl e \<Rightarrow> Inl e | Inr d \<Rightarrow> Inr (one_minus d))"

definition RBO_score ::
  "(model_output \<Rightarrow> error + number) \<Rightarrow> model_output \<Rightarrow> error + number" where
  "RBO_score super_score mo =
     (case super_score mo of Inl e \<Rightarrow> Inl e | Inr d \<Rightarrow> Inr (one_minus d))"

section \<open>similarity\_metrics.py: PairwiseJaccardSimilarity\<close>

text \<open>
  The body of the pair loop.  \<open>intersection\<close> is the size of a set intersection;
  \<open>union\<close> is computed from the lengths of the two slices (lists).  \<open>float(intersection)\<close>
  is a Python float, so a zero \<open>union\<close> raises.
\<close>

definition jaccard_step ::
  "int \<Rightarrow> string list \<times> string list \<Rightarrow> number \<times> nat \<Rightarrow> error + number \<times> nat" where
  "jaccard_step topk p acc =
     (case p of (list1, list2) \<Rightarrow> case acc of (sim, count) \<Rightarrow>
        let intersection = length (remdups (filter (\<lambda>w. w \<in> set (slice_to topk list2))
                                                  (slice_to topk list1)));
            union = (length (slice_to topk list1) + length (slice_to topk list2)) - intersection;
            count = count + 1
        in if union = 0 then Inl ZeroDivisionError
           else Inr (num_add sim (PyFloat (real intersection / real union)), count))"

definition PairwiseJaccardSimilarity_score :: "int \<Rightarrow> model_output \<Rightarrow> error + number" where
  "PairwiseJaccardSimilarity_score topk mo =
     (case topics mo of
        None \<Rightarrow> Inl KeyError
      | Some ts \<Rightarrow>
          (case foldM (jaccard_step topk) (combinations2 ts) (PyInt 0, 0) of
             Inl e \<Rightarrow> Inl e
           | Inr (sim, count) \<Rightarrow> truediv sim count))"

section \<open>utils.py: KeyedVectorsMixin\<close>

text \<open>
  gensim's \<^verbatim>\<open>KeyedVectors\<close>, as far as the sources use it: \<^verbatim>\<open>vector_size\<close>, the
  dictionary \<^verbatim>\<open>key_to_index\<close> (in insertion order) and the matrix \<^verbatim>\<open>vectors\<close>, one
  row per index.  The element type is a parameter: the scorers compute with real
  numbers, the conversion of a dictionary yields numpy scalars.
\<close>

record 'a KeyedVectors =
  vector_size :: nat
  key_to_index :: "(string \<times> nat) list"
  vectors :: "'a list list"

text \<open>
  The elements of numpy arrays, with three of numpy's dtypes: 64-bit integers, 64-bit
  floats (their values, as reals) and \<^verbatim>\<open>object\<close>, whose elements are Python objects.
  An array is a list of elements of one dtype.
\<close>

datatype dtype = int64 | float64 | object

datatype pyvalue = PInt int | PFloat real | PStr string | PNone

datatype scalar = Int64 int | Float64 real | Object pyvalue

fun scalar_dtype :: "scalar \<Rightarrow> dtype" where
  "scalar_dtype (Int64 i) = int64"
| "scalar_dtype (Float64 x) = float64"
| "scalar_dtype (Object v) = object"

text \<open>
  \<^verbatim>\<open>np.promote_types\<close> on these dtypes: \<^verbatim>\<open>int64\<close> is promoted to \<^verbatim>\<open>float64\<close>, and
  both to \<^verbatim>\<open>object\<close>.  \<open>result_type\<close> is the common dtype of a list of elements.
\<close>

fun promote_types :: "dtype \<Rightarrow> dtype \<Rightarrow> dtype" where
  "promote_types object d = object"
| "promote_types d object = object"
| "promote_types float64 d = float64"
| "promote_types d float64 = float64"
| "promote_types int64 int64 = int64"

definition result_type :: "scalar list \<Rightarrow> dtype" where
  "result_type xs = foldl promote_types int64 (map scalar_dtype xs)"

text \<open>
  The 64-bit float nearest to an integer (ties to the even significand): integers of more
  than 53 bits lose their low bits.
\<close>

definition float64_of_int :: "int \<Rightarrow> real" where
  "float64_of_int i =
     (let a = \<bar>i\<bar>; e = nat (bitlen a - 53)
      in if e = 0 then of_int i
         else let q = a div 2 ^ e; r = a mod 2 ^ e; h = 2 ^ (e - 1);
                  q' = (if h < r \<or> (r = h \<and> odd q) then q + 1 else q)
              in of_int (sgn i * q' * 2 ^ e))"

text \<open>The cast of an element to the dtype it is promoted to.\<close>

fun astype :: "dtype \<Rightarrow> scalar \<Rightarrow> scalar" where
  "astype float64 (Int64 i) = Float64 (float64_of_int i)"
| "astype object (Int64 i) = Object (PInt i)"
| "astype object (Float64 x) = Object (PFloat x)"
| "astype d x = x"

text \<open>
  A value of the dictionary handed to \<^verbatim>\<open>_convert_dict_to_keyedvectors\<close>: either an
  instance of \<^verbatim>\<open>numpy.ndarray\<close> with its shape and its elements, or any other object,
  with the shape and the elements \<^verbatim>\<open>np.asanyarray\<close> gives it (a list of \<open>n\<close> numbers
  has shape \<open>[n]\<close>, a scalar has shape \<open>[]\<close>).
\<close>

datatype pyobj =
    NDArray (shape: "nat list") (elems: "scalar list")
  | Other (shape: "nat list") (elems: "scalar list")

fun isinstance_ndarray :: "pyobj \<Rightarrow> bool" where
  "isinstance_ndarray (NDArray s xs) = True"
| "isinstance_ndarray (Other s xs) = False"

text \<open>
  \<^verbatim>\<open>np.stack\<close> on a list of objects: all must have one shape.  The result has the
  common dtype of the arrays, to which every element is cast; for arrays of one dimension
  it is the matrix whose rows are the arrays, in order.
\<close>

definition stack_rows :: "pyobj list \<Rightarrow> scalar list list" where
  "stack_rows arrays =
     (let d = result_type (concat (map elems arrays))
      in map (\<lambda>b. map (astype d) (elems b)) arrays)"

definition np_stack :: "pyobj list \<Rightarrow> error + scalar list list" where
  "np_stack arrays =
     (case arrays of
        [] \<Rightarrow> Inl (ValueError ''need at least one array to stack'')
      | a # _ \<Rightarrow>
          if list_all (\<lambda>b. shape b = shape a) arrays then Inr (stack_rows arrays)
          else Inl (ValueError ''all input arrays must have the same shape''))"

definition convert_dict_to_keyedvectors ::
  "(string \<times> pyobj) list \<Rightarrow> error + scalar KeyedVectors" where
  "convert_dict_to_keyedvectors dic =
     (case map snd dic of
        [] \<Rightarrow> Inl StopIteration
      | arr # _ \<Rightarrow>
          if \<not> isinstance_ndarray arr then Inl AssertionError
          else if length (shape arr) \<noteq> 1 then Inl AssertionError
          else
            (case np_stack (map snd dic) of
               Inl e \<Rightarrow> Inl e
             | Inr vs \<Rightarrow>
                 Inr \<lparr>vector_size = shape arr ! 0,
                      key_to_index = map (\<lambda>(idx, k). (k, idx)) (enumerate 0 (map fst dic)),
                      vectors = vs\<rparr>))"

text \<open>The \<^verbatim>\<open>model\<close> argument of \<^verbatim>\<open>load_keyedvectors\<close>.\<close>

datatype model_arg =
    NoModel
  | KeyedVectorsModel "scalar KeyedVectors"
  | DictModel "(string \<times> pyobj) list"
  | OtherModel

definition default_model_name :: string where
  "default_model_name = ''word2vec-google-news-300''"

text \<open>
  \<^verbatim>\<open>load_keyedvectors\<close> returns the table it stores in \<^verbatim>\<open>self.wv\<close>.  The download
  \<^verbatim>\<open>gensim.downloader.load\<close> is the parameter \<open>api_load\<close>.
\<close>

definition load_keyedvectors ::
  "(string \<Rightarrow> error + scalar KeyedVectors) \<Rightarrow> model_arg \<Rightarrow> string option
     \<Rightarrow> error + scalar KeyedVectors" where
  "load_keyedvectors api_load model model_name =
     (case model of
        KeyedVectorsModel kv \<Rightarrow> Inr kv
      | DictModel dic \<Rightarrow> convert_dict_to_keyedvectors dic
      | OtherModel \<Rightarrow> Inl (ValueError ''model should be either KeyedVectors or a dictionary.'')
      | NoModel \<Rightarrow>
          (case model_name of
             Some name \<Rightarrow> api_load name
           | None \<Rightarrow> api_load default_model_name))"

text \<open>\<^verbatim>\<open>word in self.wv.key_to_index.keys()\<close>.\<close>

definition in_vocab :: "'a KeyedVectors \<Rightarrow> string \<Rightarrow> bool" where
  "in_vocab wv word = (word \<in> set (map fst (key_to_index wv)))"

text \<open>\<^verbatim>\<open>self.wv[word]\<close>: the row of \<^verbatim>\<open>vectors\<close> at the word's index.\<close>

definition get_vector :: "'a KeyedVectors \<Rightarrow> string \<Rightarrow> error + 'a list" where
  "get_vector wv word =
     (case map_of (key_to_index wv) word of
        None \<Rightarrow> Inl KeyError
      | Some i \<Rightarrow> if i < length (vectors wv) then Inr (vectors wv ! i) else Inl IndexError)"

text \<open>
  The invariant of a table: every index points at a row, and every row has
  \<^verbatim>\<open>vector_size\<close> entries (\<^verbatim>\<open>vectors\<close> is a matrix).  Under it the sums and
  products of vectors below are those of numpy, which raises on arrays of different
  lengths.
\<close>

definition wf_kv :: "'a KeyedVectors \<Rightarrow> bool" where
  "wf_kv wv = (list_all (\<lambda>p. snd p < length (vectors wv)) (key_to_index wv)
             \<and> list_all (\<lambda>row. length row = vector_size wv) (vectors wv))"

section \<open>Vector arithmetic of numpy, gensim and scipy\<close>

definition dot :: "real list \<Rightarrow> real list \<Rightarrow> real" where
  "dot u v = sum_list (map2 (*) u v)"

text \<open>gensim's \<^verbatim>\<open>matutils.unitvec\<close>: a zero vector is returned as it is.\<close>

definition unitvec :: "real list \<Rightarrow> real list" where
  "unitvec v = (let veclen = sqrt (dot v v)
                in if veclen > 0 then map (\<lambda>x. (1 / veclen) * x) v else v)"

text \<open>\<^verbatim>\<open>KeyedVectors.similarity\<close>: the dot product of the two unit vectors.\<close>

definition similarity :: "real KeyedVectors \<Rightarrow> string \<Rightarrow> string \<Rightarrow> error + real" where
  "similarity wv w1 w2 =
     (case get_vector wv w1 of
        Inl e \<Rightarrow> Inl e
      | Inr u \<Rightarrow> (case get_vector wv w2 of
                   Inl e \<Rightarrow> Inl e
                 | Inr v \<Rightarrow> Inr (dot (unitvec u) (unitvec v))))"

text \<open>
  A numpy array divided by a scalar.  Division by zero does not raise; \<open>None\<close> is an
  array with an entry that is not a finite number.
\<close>

definition np_div :: "real list \<Rightarrow> real \<Rightarrow> real list option" where
  "np_div a d = (if d = 0 \<and> a \<noteq> [] then None else Some (map (\<lambda>x. x / d) a))"

text \<open>
  The numbers a table of numpy scalars holds for the scorers: numpy arithmetic reads an
  integer as the float nearest to it.  Arithmetic on other objects is not modelled.
\<close>

fun float_of :: "scalar \<Rightarrow> real" where
  "float_of (Float64 x) = x"
| "float_of (Int64 i) = float64_of_int i"
| "float_of (Object v) = 0"

definition float_table :: "scalar KeyedVectors \<Rightarrow> real KeyedVectors" where
  "float_table kv = \<lparr>vector_size = vector_size kv, key_to_index = key_to_index kv,
                     vectors = map (map float_of) (vectors kv)\<rparr>"

text \<open>
  \<^verbatim>\<open>scipy.spatial.distance.correlation(u, v, centered=False)\<close>: the absolute value of
  \<open>1 - u \<bullet> v / (\<parallel>u\<parallel> \<parallel>v\<parallel>)\<close> for two arrays of one length (scipy divides the three
  products by the length first, which cancels).  With a zero norm, or an entry that is not
  finite, the quotient and the result are not a number.
\<close>

definition correlation :: "real list option \<Rightarrow> real list option \<Rightarrow> real option" where
  "correlation a b =
     (case a of None \<Rightarrow> None | Some u \<Rightarrow>
      (case b of None \<Rightarrow> None | Some v \<Rightarrow>
         if dot u u * dot v v = 0 then None
         else Some \<bar>1 - dot u v / sqrt (dot u u * dot v v)\<bar>))"

text \<open>
  \<^verbatim>\<open>scipy.spatial.distance.cosine\<close> as scipy has it up to version 1.12, the versions
  gensim 4 runs with: \<^verbatim>\<open>max(0, min(correlation(u, v, centered=False), 2.0))\<close>.
  Python's \<^verbatim>\<open>min\<close> keeps its first argument unless the second is smaller, and
  \<^verbatim>\<open>max\<close> keeps the int \<open>0\<close> unless the other argument is greater: for a distance
  that is zero or not a number the result is the Python int \<open>0\<close>.
\<close>

definition cosine :: "real list option \<Rightarrow> real list option \<Rightarrow> number" where
  "cosine a b =
     (case correlation a b of
        None \<Rightarrow> PyInt 0
      | Some d \<Rightarrow> if 2 < d then PyFloat 2 else if 0 < d then NpFloat (Some d) else PyInt 0)"

section \<open>similarity\_metrics.py: WordEmbeddingsPairwiseSimilarity\<close>

text \<open>The body of the two inner loops, for one pair of words.\<close>

definition word_pair_step ::
  "real KeyedVectors \<Rightarrow> string \<Rightarrow> string \<Rightarrow> number \<times> nat \<Rightarrow> error + number \<times> nat" where
  "word_pair_step wv word1 word2 acc =
     (case acc of (sim, word_counts) \<Rightarrow>
        if in_vocab wv word1 \<and> in_vocab wv word2 then
          (case similarity wv word1 word2 of
             Inl e \<Rightarrow> Inl e
           | Inr s \<Rightarrow> Inr (num_add sim (NpFloat (Some s)), word_counts + 1))
        else Inr (sim, word_counts))"

text \<open>The body of the loop over the pairs of topics.\<close>

definition pairwise_step ::
  "real KeyedVectors \<Rightarrow> int \<Rightarrow> string list \<times> string list \<Rightarrow> number \<times> nat
     \<Rightarrow> error + number \<times> nat" where
  "pairwise_step wv topk p acc =
     (case p of (list1, list2) \<Rightarrow> case acc of (sum_sim, count) \<Rightarrow>
        (case foldM (\<lambda>word1. foldM (word_pair_step wv word1) (slice_to topk list2))
                (slice_to topk list1) (PyInt 0, 0) of
           Inl e \<Rightarrow> Inl e
         | Inr (sim, word_counts) \<Rightarrow>
             (case truediv sim word_counts of
                Inl e \<Rightarrow> Inl e
              | Inr sim' \<Rightarrow> Inr (num_add sum_sim sim', count + 1))))"

definition WordEmbeddingsPairwiseSimilarity_score ::
  "real KeyedVectors \<Rightarrow> int \<Rightarrow> model_output \<Rightarrow> error + number" where
  "WordEmbeddingsPairwiseSimilarity_score wv topk mo =
     (case topics mo of
        None \<Rightarrow> Inl KeyError
      | Some ts \<Rightarrow>
          (case ts of
             [] \<Rightarrow> Inl IndexError
           | t0 # _ \<Rightarrow>
               if topk > int (length t0) then Inl (Exception ''Words in topics are less than topk'')
               else
                 (case foldM (pairwise_step wv topk) (combinations2 ts) (PyInt 0, 0) of
                    Inl e \<Rightarrow> Inl e
                  | Inr (sum_sim, count) \<Rightarrow> truediv sum_sim count)))"

section \<open>similarity\_metrics.py: WordEmbeddingsCentroidSimilarity\<close>

text \<open>The body of a loop that sums the vectors of the words of one topic.\<close>

definition centroid_step ::
  "real KeyedVectors \<Rightarrow> string \<Rightarrow> real list \<times> nat \<Rightarrow> error + real list \<times> nat" where
  "centroid_step wv word acc =
     (case acc of (centroid, count) \<Rightarrow>
        if in_vocab wv word then
          (case get_vector wv word of
             Inl e \<Rightarrow> Inl e
           | Inr v \<Rightarrow> Inr (map2 (+) centroid v, count + 1))
        else Inr (centroid, count))"

definition centroid_pair ::
  "real KeyedVectors \<Rightarrow> int \<Rightarrow> string list \<times> string list \<Rightarrow> number \<times> nat
     \<Rightarrow> error + number \<times> nat" where
  "centroid_pair wv topk p acc =
     (case p of (list1, list2) \<Rightarrow> case acc of (sim, count) \<Rightarrow>
        (case foldM (centroid_step wv) (slice_to topk list1)
                (replicate (vector_size wv) 0, 0) of
           Inl e \<Rightarrow> Inl e
         | Inr (centroid1, count1) \<Rightarrow>
             (case foldM (centroid_step wv) (slice_to topk list2)
                     (replicate (vector_size wv) 0, 0) of
                Inl e \<Rightarrow> Inl e
              | Inr (centroid2, count2) \<Rightarrow>
                  Inr (num_add sim
                         (one_minus (cosine (np_div centroid1 (real count1))
                                            (np_div centroid2 (real count2)))),
                       count + 1))))"

definition WordEmbeddingsCentroidSimilarity_score ::
  "real KeyedVectors \<Rightarrow> int \<Rightarrow> model_output \<Rightarrow> error + number" where
  "WordEmbeddingsCentroidSimilarity_score wv topk mo =
     (case topics mo of
        None \<Rightarrow> Inl KeyError
      | Some ts \<Rightarrow>
          (case ts of
             [] \<Rightarrow> Inl IndexError
           | t0 # _ \<Rightarrow>
               if topk > int (length t0) then Inl (Exception ''Words in topics are less than topk'')
               else
                 (case foldM (centroid_pair wv topk) (combinations2 ts) (PyInt 0, 0) of
                    Inl e \<Rightarrow> Inl e
                  | Inr (sim, count) \<Rightarrow> truediv sim count)))"

section \<open>similarity\_metrics.py: WordEmbeddingsWeightedSumSimilarity\<close>

text \<open>
  The body of the loop over \<^verbatim>\<open>enumerate(beta[i])\<close>; \<open>id2word\<close> is the dictionary from
  vocabulary ids to words.
\<close>

definition weighted_step ::
  "real KeyedVectors \<Rightarrow> (nat \<Rightarrow> string option) \<Rightarrow> nat \<times> real \<Rightarrow> real list \<times> real
     \<Rightarrow> error + real list \<times> real" where
  "weighted_step wv id2word p acc =
     (case p of (id_beta, w) \<Rightarrow> case acc of (centroid, weights) \<Rightarrow>
        (case id2word id_beta of
           None \<Rightarrow> Inl KeyError
         | Some word \<Rightarrow>
             (case get_vector wv word of
                Inl e \<Rightarrow> Inl e
              | Inr v \<Rightarrow> Inr (map2 (+) centroid (map (\<lambda>x. x * w) v), weights + w))))"

text \<open>The centroid the code builds from one row of the distribution.\<close>

definition weighted_centroid ::
  "real KeyedVectors \<Rightarrow> (nat \<Rightarrow> string option) \<Rightarrow> real list \<Rightarrow> error + real list option" where
  "weighted_centroid wv id2word row =
     (case foldM (weighted_step wv id2word) (enumerate 0 row)
             (replicate (vector_size wv) 0, 0) of
        Inl e \<Rightarrow> Inl e
      | Inr (centroid, weights) \<Rightarrow> Inr (np_div centroid weights))"

text \<open>
  The value the body of the pair loop adds to \<open>wess\<close> for the pair \<open>(i, j)\<close>: both
  centroids are built from \<^verbatim>\<open>beta[i]\<close>, as lines 187 and 193 of the source have it.
\<close>

definition weighted_pair_value ::
  "real KeyedVectors \<Rightarrow> (nat \<Rightarrow> string option) \<Rightarrow> real list list \<Rightarrow> nat \<times> nat
     \<Rightarrow> error + number" where
  "weighted_pair_value wv id2word beta p =
     (case p of (i, j) \<Rightarrow>
        (case weighted_centroid wv id2word (beta ! i) of
           Inl e \<Rightarrow> Inl e
         | Inr centroid1 \<Rightarrow>
             (case weighted_centroid wv id2word (beta ! i) of
                Inl e \<Rightarrow> Inl e
              | Inr centroid2 \<Rightarrow> Inr (cosine centroid1 centroid2))))"

text \<open>The body of the pair loop: \<open>count\<close> is part of the state and is not changed.\<close>

definition weighted_pair ::
  "real KeyedVectors \<Rightarrow> (nat \<Rightarrow> string option) \<Rightarrow> real list list \<Rightarrow> nat \<times> nat
     \<Rightarrow> number \<times> nat \<Rightarrow> error + number \<times> nat" where
  "weighted_pair wv id2word beta p acc =
     (case acc of (wess, count) \<Rightarrow>
        (case weighted_pair_value wv id2word beta p of
           Inl e \<Rightarrow> Inl e
         | Inr c \<Rightarrow> Inr (num_add wess c, count)))"

definition WordEmbeddingsWeightedSumSimilarity_score ::
  "real KeyedVectors \<Rightarrow> (nat \<Rightarrow> string option) \<Rightarrow> model_output \<Rightarrow> error + number" where
  "WordEmbeddingsWeightedSumSimilarity_score wv id2word mo =
     (case topic_word_distribution mo of
        None \<Rightarrow> Inl KeyError
      | Some beta \<Rightarrow>
          (case foldM (weighted_pair wv id2word beta) (combinations2 [0..<length beta])
                  (PyInt 0, 0) of
             Inl e \<Rightarrow> Inl e
           | Inr (wess, count) \<Rightarrow> truediv wess count))"

text \<open>
  What the specification asks of the pair \<open>(i, j)\<close>: the cosine distance between the
  centroid of row \<open>i\<close> and the centroid of row \<open>j\<close>.
\<close>

definition weighted_pair_value_spec ::
  "real KeyedVectors \<Rightarrow> (nat \<Rightarrow> string option) \<Rightarrow> real list list \<Rightarrow> nat \<times> nat
     \<Rightarrow> error + number" where
  "weighted_pair_value_spec wv id2word beta p =
     (case p of (i, j) \<Rightarrow>
        (case weighted_centroid wv id2word (beta ! i) of
           Inl e \<Rightarrow> Inl e
         | Inr centroid1 \<Rightarrow>
             (case weighted_centroid wv id2word (beta ! j) of
                Inl e \<Rightarrow> Inl e
              | Inr centroid2 \<Rightarrow> Inr (cosine centroid1 centroid2))))"

section \<open>Reference values and example inputs\<close>

text \<open>
  The Jaccard index of two word lists read as sets, as the specification words it.
\<close>

definition jaccard_spec :: "string list \<Rightarrow> string list \<Rightarrow> real" where
  "jaccard_spec A B =
     real (card (set A \<inter> set B))
       / real (card (set A) + card (set B) - card (set A \<inter> set B))"

text \<open>A table with the two words \<open>a\<close> and \<open>b\<close>, whose vectors are orthogonal unit vectors.\<close>

definition wv_ab :: "real KeyedVectors" where
  "wv_ab = \<lparr>vector_size = 2, key_to_index = [(''a'', 0), (''b'', 1)],
            vectors = [[1, 0], [0, 1]]\<rparr>"


definition id2word_ab :: "nat \<Rightarrow> string option" where
  "id2word_ab = [0 \<mapsto> ''a'', 1 \<mapsto> ''b'']"

text \<open>The vector and the similarity of words of the vocabulary, without the error cases.\<close>

definition vec_of :: "'a KeyedVectors \<Rightarrow> string \<Rightarrow> 'a list" where
  "vec_of wv word = (case get_vector wv word of Inl e \<Rightarrow> [] | Inr v \<Rightarrow> v)"

definition sim_of :: "real KeyedVectors \<Rightarrow> string \<Rightarrow> string \<Rightarrow> real" where
  "sim_of wv w1 w2 = dot (unitvec (vec_of wv w1)) (unitvec (vec_of wv w2))"

text \<open>
  The state of the two word loops of the pairwise scorer after adding the similarities
  \<open>rs\<close>, and the similarities of the pairs of vocabulary words of two slices, in loop
  order.
\<close>

definition add_sims :: "number \<times> nat \<Rightarrow> real list \<Rightarrow> number \<times> nat" where
  "add_sims acc rs = foldl (\<lambda>(sim, n) r. (num_add sim (NpFloat (Some r)), n + 1)) acc rs"

definition pair_sims :: "real KeyedVectors \<Rightarrow> string list \<Rightarrow> string list \<Rightarrow> real list" where
  "pair_sims wv l1 l2 =
     concat (map (\<lambda>a. map (sim_of wv a) (filter (in_vocab wv) l2)) (filter (in_vocab wv) l1))"

section \<open>Properties\<close>

lemma num_val_one_minus: "num_val (one_minus d) = map_option (\<lambda>a. 1 - a) (num_val d)"
  by (cases d) simp_all

text \<open>
  C9.  Whatever the wrapped diversity metric is, each of the three ranked-overlap
  wrappers returns exactly one minus the score the wrapped metric returns on the same
  model output: the returned value is \<open>1 - d\<close> when the wrapped value is \<open>d\<close>, and nothing
  else is applied.
\<close>

theorem wrappers_one_minus_diversity:
  assumes "super_score mo = Inr d"
  shows "WordEmbeddingsRBOMatch_score super_score mo = Inr (one_minus d)
       \<and> WordEmbeddingsRBOCentroid_score super_score mo = Inr (one_minus d)
       \<and> RBO_score super_score mo = Inr (one_minus d)
       \<and> num_val (one_minus d) = map_option (\<lambda>a. 1 - a) (num_val d)"
  using assms
  by (simp add: WordEmbeddingsRBOMatch_score_def WordEmbeddingsRBOCentroid_score_def
      RBO_score_def num_val_one_minus)

theorem wrappers_one_minus_diversity_witness:
  "(\<lambda>mo. Inr (PyFloat (1/4))) \<lparr>topics = Some [], topic_word_distribution = None\<rparr>
       = (Inr (PyFloat (1/4)) :: error + number)
   \<and> RBO_score (\<lambda>mo. Inr (PyFloat (1/4))) \<lparr>topics = Some [], topic_word_distribution = None\<rparr>
       = Inr (PyFloat (3/4))
   \<and> WordEmbeddingsRBOMatch_score (\<lambda>mo. Inr (PyFloat (1/4)))
        \<lparr>topics = Some [], topic_word_distribution = None\<rparr> = Inr (PyFloat (3/4))
   \<and> WordEmbeddingsRBOCentroid_score (\<lambda>mo. Inr (PyFloat (1/4)))
        \<lparr>topics = Some [], topic_word_distribution = None\<rparr> = Inr (PyFloat (3/4))"
  using wrappers_one_minus_diversity
    [of "\<lambda>mo. Inr (PyFloat (1/4))" "\<lparr>topics = Some [], topic_word_distribution = None\<rparr>"
        "PyFloat (1/4)"]
  by simp

subsection \<open>WordEmbeddingsWeightedSumSimilarity\<close>

lemmas weighted_eval =
  wv_ab_def id2word_ab_def weighted_pair_def weighted_pair_value_def
  weighted_pair_value_spec_def weighted_centroid_def weighted_step_def get_vector_def
  enumerate_eq_zip np_div_def cosine_def correlation_def dot_def upt_rec eval_nat_numeral

lemma foldM_weighted_pair_count:
  "foldM (weighted_pair wv id2word beta) ps (wess, count) = Inr (wess', count')
     \<Longrightarrow> count' = count"
proof (induction ps arbitrary: wess)
  case Nil
  then show ?case by simp
next
  case (Cons p ps)
  then show ?case
    by (auto simp: weighted_pair_def split: sum.splits)
qed

lemma truediv_zero_not_finite: "truediv w 0 = Inr n \<Longrightarrow> num_val n = None"
  by (cases w) auto

text \<open>
  Whatever the input, the weighted-sum scorer never returns a finite number: the counter
  it divides by is still zero after the loop.
\<close>

lemma weighted_sum_score_never_finite:
  "WordEmbeddingsWeightedSumSimilarity_score wv id2word mo = Inr n \<Longrightarrow> num_val n = None"
  by (auto simp: WordEmbeddingsWeightedSumSimilarity_score_def
      split: option.splits sum.splits
      dest!: foldM_weighted_pair_count truediv_zero_not_finite)

text \<open>
  C1.  The claim: with at least two rows in the distribution, the weighted-sum scorer
  returns the accumulated pair values divided by the number of pairs.  The code at the
  distribution \<open>[[1, 0], [0, 1]]\<close> (one pair of rows): the loop ends with the accumulated
  value \<open>0\<close> and the counter \<open>count\<close> still \<open>0\<close>, although there is one pair; the final
  division by \<open>count\<close> is a division by zero and raises, instead of returning the mean
  \<open>0 / 1\<close>.
\<close>

theorem weighted_sum_count_never_incremented:
  "WordEmbeddingsWeightedSumSimilarity_score wv_ab id2word_ab
      \<lparr>topics = None, topic_word_distribution = Some [[1, 0], [0, 1]]\<rparr>
     = Inl ZeroDivisionError
   \<and> foldM (weighted_pair wv_ab id2word_ab [[1, 0], [0, 1]]) (combinations2 [0..<2]) (PyInt 0, 0)
       = Inr (PyInt 0, 0)
   \<and> length (combinations2 [0..<(2::nat)]) = 1"
  by (simp add: WordEmbeddingsWeightedSumSimilarity_score_def weighted_eval)

lemma weighted_pair_value_ignores_j:
  "weighted_pair_value wv id2word beta (i, j) = weighted_pair_value wv id2word beta (i, i)"
  by (simp add: weighted_pair_value_def)

text \<open>
  C2.  The claim: for the pair \<open>(i, j)\<close> the second centroid is built from row \<open>j\<close>, and
  the value added is the cosine distance between the centroid of row \<open>i\<close> and that of
  row \<open>j\<close>.  The code at the rows \<open>[1, 0]\<close> and \<open>[0, 1]\<close>, whose centroids are the
  orthogonal vectors of \<open>a\<close> and \<open>b\<close>: the value added for the pair \<open>(0, 1)\<close> is \<open>0\<close>, the
  distance of the first centroid to itself, where the distance between the two centroids
  is \<open>1\<close>.
\<close>

theorem weighted_pair_second_centroid_from_first_row:
  "weighted_pair_value wv_ab id2word_ab [[1, 0], [0, 1]] (0, 1) = Inr (PyInt 0)
   \<and> weighted_pair_value_spec wv_ab id2word_ab [[1, 0], [0, 1]] (0, 1)
       = Inr (NpFloat (Some 1))"
  by (simp add: weighted_eval)

subsection \<open>PairwiseJaccardSimilarity\<close>

text \<open>The example of the specification: one common word of three.\<close>

lemma jaccard_example:
  "PairwiseJaccardSimilarity_score 2
      \<lparr>topics = Some [[''a'', ''b''], [''b'', ''c'']], topic_word_distribution = None\<rparr>
     = Inr (PyFloat (1 / 3))"
  by (simp add: PairwiseJaccardSimilarity_score_def jaccard_step_def slice_to_def)

text \<open>When neither slice repeats a word, the pair score is the Jaccard index of the sets.\<close>

lemma jaccard_step_distinct:
  assumes "distinct (slice_to topk list1)" "distinct (slice_to topk list2)"
    "slice_to topk list1 \<noteq> [] \<or> slice_to topk list2 \<noteq> []"
  shows "jaccard_step topk (list1, list2) (sim, count)
       = Inr (num_add sim (PyFloat (jaccard_spec (slice_to topk list1) (slice_to topk list2))),
              count + 1)"
proof -
  let ?s1 = "slice_to topk list1" and ?s2 = "slice_to topk list2"
  have i: "length (remdups (filter (\<lambda>w. w \<in> set ?s2) ?s1)) = card (set ?s1 \<inter> set ?s2)"
    by (simp add: length_remdups_card_conv Int_def conj_commute)
  have l: "length ?s1 = card (set ?s1)" "length ?s2 = card (set ?s2)"
    using assms by (simp_all add: distinct_card)
  have "card (set ?s1 \<inter> set ?s2) \<le> card (set ?s1)"
       "card (set ?s1 \<inter> set ?s2) \<le> card (set ?s2)"
    by (simp_all add: card_mono)
  moreover have "0 < card (set ?s1) \<or> 0 < card (set ?s2)"
    using assms(3) by (simp add: card_gt_0_iff)
  ultimately have u: "card (set ?s1) + card (set ?s2) - card (set ?s1 \<inter> set ?s2) \<noteq> 0"
    by linarith
  show ?thesis
    unfolding jaccard_step_def jaccard_spec_def using u
    by (simp add: i l Let_def)
qed

text \<open>
  C4.  The claim: each top-k slice is read as a set, so that a word repeated within one
  slice counts once, in the intersection and in \<open>|top-k(A)| + |top-k(B)| - intersection\<close>.
  The code with \<open>topk = 2\<close> at the topics \<open>[[a, a], [a, a]]\<close>: the intersection is the set
  \<open>{a}\<close>, of size 1, while the two sizes are the lengths of the lists, \<open>2 + 2\<close>; the score
  is \<open>1 / (2 + 2 - 1) = 1/3\<close>, where the sets \<open>{a}\<close> and \<open>{a}\<close> have the Jaccard index \<open>1\<close>.
\<close>

theorem jaccard_union_counts_repeated_words:
  "PairwiseJaccardSimilarity_score 2
      \<lparr>topics = Some [[''a'', ''a''], [''a'', ''a'']], topic_word_distribution = None\<rparr>
     = Inr (PyFloat (1 / 3))
   \<and> jaccard_spec (slice_to 2 [''a'', ''a'']) (slice_to 2 [''a'', ''a'']) = 1"
  by (simp add: PairwiseJaccardSimilarity_score_def jaccard_step_def slice_to_def
      jaccard_spec_def)

subsection \<open>Fewer than two topics, and the top-k guard\<close>

lemma combinations2_short: "length ts < 2 \<Longrightarrow> combinations2 ts = []"
  by (cases ts rule: combinations2.cases) (auto simp: less_Suc_eq)

text \<open>
  C3, as stated: with fewer than two topics each of the three pairwise scorers fails with
  one error, \<open>NoTopicPairsError\<close>.  Three inputs with fewer than two topics on which the
  scorers fail with three different errors: the exception of the top-k guard, an index
  error and a division by zero.
\<close>

theorem fewer_than_two_topics_three_errors:
  "WordEmbeddingsPairwiseSimilarity_score wv_ab 2
      \<lparr>topics = Some [[''a'']], topic_word_distribution = None\<rparr>
     = Inl (Exception ''Words in topics are less than topk'')
   \<and> WordEmbeddingsCentroidSimilarity_score wv_ab 1
      \<lparr>topics = Some [], topic_word_distribution = None\<rparr> = Inl IndexError
   \<and> PairwiseJaccardSimilarity_score 1
      \<lparr>topics = Some [[''a'']], topic_word_distribution = None\<rparr> = Inl ZeroDivisionError"
  by (simp add: WordEmbeddingsPairwiseSimilarity_score_def
      WordEmbeddingsCentroidSimilarity_score_def PairwiseJaccardSimilarity_score_def)

text \<open>
  C3, amended.  With fewer than two topics every pairwise scorer fails, and never returns
  a value.  \<open>PairwiseJaccardSimilarity\<close> fails with a division by zero.  The two
  embedding scorers fail with an index error when there is no topic; with one topic they
  fail with the exception of the top-k guard when \<open>topk\<close> exceeds its length, and with a
  division by zero otherwise.
\<close>

theorem fewer_than_two_topics_fail:
  assumes "topics mo = Some ts" and "length ts < 2"
  shows "PairwiseJaccardSimilarity_score topk mo = Inl ZeroDivisionError
       \<and> WordEmbeddingsPairwiseSimilarity_score wv topk mo
           = (case ts of [] \<Rightarrow> Inl IndexError
              | t0 # _ \<Rightarrow> if int (length t0) < topk
                          then Inl (Exception ''Words in topics are less than topk'')
                          else Inl ZeroDivisionError)
       \<and> WordEmbeddingsCentroidSimilarity_score wv topk mo
           = (case ts of [] \<Rightarrow> Inl IndexError
              | t0 # _ \<Rightarrow> if int (length t0) < topk
                          then Inl (Exception ''Words in topics are less than topk'')
                          else Inl ZeroDivisionError)"
  using assms
  by (simp add: WordEmbeddingsPairwiseSimilarity_score_def
      WordEmbeddingsCentroidSimilarity_score_def PairwiseJaccardSimilarity_score_def
      combinations2_short split: list.splits)

theorem fewer_than_two_topics_fail_witness:
  "topics \<lparr>topics = Some [[''a'']], topic_word_distribution = None\<rparr> = Some [[''a'']]
   \<and> length [[''a'']] < 2
   \<and> PairwiseJaccardSimilarity_score 1
        \<lparr>topics = Some [[''a'']], topic_word_distribution = None\<rparr> = Inl ZeroDivisionError
   \<and> WordEmbeddingsPairwiseSimilarity_score wv_ab 1
        \<lparr>topics = Some [[''a'']], topic_word_distribution = None\<rparr> = Inl ZeroDivisionError
   \<and> WordEmbeddingsCentroidSimilarity_score wv_ab 1
        \<lparr>topics = Some [[''a'']], topic_word_distribution = None\<rparr> = Inl ZeroDivisionError"
  using fewer_than_two_topics_fail
    [of "\<lparr>topics = Some [[''a'']], topic_word_distribution = None\<rparr>" "[[''a'']]" 1 wv_ab]
  by simp

text \<open>The exceptions a loop raises are those its body raises.\<close>

lemma foldM_error:
  assumes "foldM f xs s = Inl e" and "\<And>x s' e'. f x s' = Inl e' \<Longrightarrow> P e'"
  shows "P e"
  using assms(1)
proof (induction xs arbitrary: s)
  case Nil
  then show ?case by simp
next
  case (Cons x xs)
  show ?case
  proof (cases "f x s")
    case (Inl e')
    with Cons.prems have "e' = e" by simp
    with Inl assms(2) show ?thesis by blast
  next
    case (Inr s')
    with Cons show ?thesis by simp
  qed
qed

lemma truediv_error: "truediv w n = Inl e \<Longrightarrow> e = ZeroDivisionError"
  by (cases w) (auto split: if_splits)

lemma jaccard_errors:
  assumes "PairwiseJaccardSimilarity_score topk mo = Inl e"
  shows "e = KeyError \<or> e = ZeroDivisionError"
proof (cases "topics mo")
  case None
  with assms show ?thesis by (simp add: PairwiseJaccardSimilarity_score_def)
next
  case (Some ts)
  show ?thesis
  proof (cases "foldM (jaccard_step topk) (combinations2 ts) (PyInt 0, 0)")
    case (Inl e')
    with assms Some have "e' = e" by (simp add: PairwiseJaccardSimilarity_score_def)
    moreover have "e' = ZeroDivisionError"
      by (rule foldM_error [OF Inl])
         (auto simp: jaccard_step_def Let_def split: prod.splits if_splits)
    ultimately show ?thesis by simp
  next
    case (Inr acc)
    with assms Some show ?thesis
      by (cases acc) (auto simp: PairwiseJaccardSimilarity_score_def dest: truediv_error)
  qed
qed

text \<open>
  C6, as stated: when \<open>topk\<close> exceeds the length of the first topic's word list, the score
  call of each top-k scorer fails.  \<open>PairwiseJaccardSimilarity\<close> scores the top-k slices
  of the topics too; with \<open>topk = 5\<close> and topics of two words it raises no error and
  returns \<open>1/3\<close>, the score of the whole lists.
\<close>

theorem jaccard_topk_above_length_returns:
  "PairwiseJaccardSimilarity_score 5
      \<lparr>topics = Some [[''a'', ''b''], [''b'', ''c'']], topic_word_distribution = None\<rparr>
     = Inr (PyFloat (1 / 3))"
  by (simp add: PairwiseJaccardSimilarity_score_def jaccard_step_def slice_to_def)

text \<open>
  C6, amended.  When \<open>topk\<close> exceeds the length of the first topic's word list, the score
  call of \<open>WordEmbeddingsPairwiseSimilarity\<close> and of \<open>WordEmbeddingsCentroidSimilarity\<close>
  fails with the exception \<open>Words in topics are less than topk\<close> (the specification's
  \<open>InsufficientWordsError\<close>); the check looks at the first topic only, the other topics
  \<open>ts\<close> are arbitrary.  \<open>PairwiseJaccardSimilarity\<close> has no such check and never fails
  with this exception.
\<close>

theorem topk_exceeds_first_topic_raises:
  assumes "topics mo = Some (t0 # ts)" and "int (length t0) < topk"
  shows "WordEmbeddingsPairwiseSimilarity_score wv topk mo
           = Inl (Exception ''Words in topics are less than topk'')
       \<and> WordEmbeddingsCentroidSimilarity_score wv topk mo
           = Inl (Exception ''Words in topics are less than topk'')
       \<and> PairwiseJaccardSimilarity_score topk mo
           \<noteq> Inl (Exception ''Words in topics are less than topk'')"
proof -
  have "PairwiseJaccardSimilarity_score topk mo
          \<noteq> Inl (Exception ''Words in topics are less than topk'')"
    using jaccard_errors [of topk mo "Exception ''Words in topics are less than topk''"]
    by auto
  with assms show ?thesis
    by (simp add: WordEmbeddingsPairwiseSimilarity_score_def
        WordEmbeddingsCentroidSimilarity_score_def)
qed

theorem topk_exceeds_first_topic_raises_witness:
  "topics \<lparr>topics = Some [[''a''], [''a'', ''b'', ''c'']], topic_word_distribution = None\<rparr>
     = Some [[''a''], [''a'', ''b'', ''c'']]
   \<and> int (length [''a'']) < 2
   \<and> WordEmbeddingsPairwiseSimilarity_score wv_ab 2
        \<lparr>topics = Some [[''a''], [''a'', ''b'', ''c'']], topic_word_distribution = None\<rparr>
       = Inl (Exception ''Words in topics are less than topk'')
   \<and> WordEmbeddingsCentroidSimilarity_score wv_ab 2
        \<lparr>topics = Some [[''a''], [''a'', ''b'', ''c'']], topic_word_distribution = None\<rparr>
       = Inl (Exception ''Words in topics are less than topk'')
   \<and> PairwiseJaccardSimilarity_score 2
        \<lparr>topics = Some [[''a''], [''a'', ''b'', ''c'']], topic_word_distribution = None\<rparr>
       = Inr (PyFloat (1 / 2))"
  using topk_exceeds_first_topic_raises
    [of "\<lparr>topics = Some [[''a''], [''a'', ''b'', ''c'']], topic_word_distribution = None\<rparr>"
        "[''a'']" "[[''a'', ''b'', ''c'']]" 2 wv_ab]
  by (simp add: PairwiseJaccardSimilarity_score_def jaccard_step_def slice_to_def)

subsection \<open>KeyedVectorsMixin: resolving a dictionary\<close>

lemma swap_enumerate:
  "map (\<lambda>(idx, k). (k, idx)) (enumerate n xs) = zip xs [n..<n + length xs]"
  by (simp add: enumerate_eq_zip zip_commute [of xs])

lemma convert_cases:
  "convert_dict_to_keyedvectors ((k0, arr) # dic) =
     (if \<not> isinstance_ndarray arr \<or> length (shape arr) \<noteq> 1 then Inl AssertionError
      else if list_all (\<lambda>b. shape b = shape arr) (map snd dic) then
        Inr \<lparr>vector_size = shape arr ! 0,
             key_to_index = zip (k0 # map fst dic) [0..<Suc (length dic)],
             vectors = stack_rows (arr # map snd dic)\<rparr>
      else Inl (ValueError ''all input arrays must have the same shape''))"
  by (simp add: convert_dict_to_keyedvectors_def np_stack_def swap_enumerate upt_conv_Cons
      del: upt_Suc)

lemma shape_1d: "length s = 1 \<Longrightarrow> s = [s ! 0]"
  by (cases s) auto

text \<open>What a successful conversion returns, and what it has checked.\<close>

lemma convert_Inr:
  assumes "convert_dict_to_keyedvectors dic = Inr kv"
  shows "key_to_index kv = zip (map fst dic) [0..<length dic]"
    and "vectors kv = stack_rows (map snd dic)"
    and "list_all (\<lambda>p. shape (snd p) = [vector_size kv]) dic"
    and "dic \<noteq> []"
proof -
  obtain k0 arr rest where d: "dic = (k0, arr) # rest"
    using assms by (cases dic) (auto simp: convert_dict_to_keyedvectors_def)
  from assms have ok: "isinstance_ndarray arr" "length (shape arr) = 1"
      "list_all (\<lambda>b. shape b = shape arr) (map snd rest)"
    and kv: "kv = \<lparr>vector_size = shape arr ! 0,
             key_to_index = zip (k0 # map fst rest) [0..<Suc (length rest)],
             vectors = stack_rows (arr # map snd rest)\<rparr>"
    unfolding d convert_cases by (auto split: if_splits)
  show "key_to_index kv = zip (map fst dic) [0..<length dic]"
    by (simp add: kv d del: upt_Suc)
  show "vectors kv = stack_rows (map snd dic)"
    by (simp add: kv d)
  show "list_all (\<lambda>p. shape (snd p) = [vector_size kv]) dic"
    using ok shape_1d [OF ok(2)] by (simp add: kv d list_all_iff)
  show "dic \<noteq> []" by (simp add: d)
qed

text \<open>The vector the resolved table holds for a key: the value's elements, cast.\<close>

lemma convert_get_vector:
  assumes "convert_dict_to_keyedvectors dic = Inr kv"
    and "distinct (map fst dic)" and "(k, v) \<in> set dic"
  shows "get_vector kv k
           = Inr (map (astype (result_type (concat (map (elems \<circ> snd) dic)))) (elems v))"
proof -
  note c = convert_Inr [OF assms(1)]
  obtain i where i: "i < length dic" "dic ! i = (k, v)"
    using assms(3) by (auto simp: in_set_conv_nth)
  have "map_of (zip (map fst dic) [0..<length dic]) (map fst dic ! i)
          = Some ([0..<length dic] ! i)"
    using assms(2) i(1) by (intro map_of_zip_nth) simp_all
  then have m: "map_of (key_to_index kv) k = Some i"
    using i by (simp add: c(1))
  show ?thesis
    using i by (simp add: get_vector_def m c(2) stack_rows_def Let_def comp_def)
qed

lemma promote_types_absorb: "promote_types (promote_types a d) d = promote_types a d"
  by (cases a; cases d) simp_all

lemma foldl_promote_same:
  "list_all (\<lambda>y. y = d) ds \<Longrightarrow> ds \<noteq> [] \<Longrightarrow> foldl promote_types a ds = promote_types a d"
proof (induction ds arbitrary: a)
  case Nil
  then show ?case by simp
next
  case (Cons y ds)
  then show ?case
    by (cases "ds = []") (simp_all add: promote_types_absorb)
qed

lemma result_type_same:
  assumes "list_all (\<lambda>x. scalar_dtype x = d) xs" and "xs \<noteq> []"
  shows "result_type xs = d"
proof -
  have "foldl promote_types int64 (map scalar_dtype xs) = promote_types int64 d"
    using assms by (intro foldl_promote_same) (simp_all add: list_all_iff)
  then show ?thesis by (cases d) (simp_all add: result_type_def)
qed

lemma astype_same: "scalar_dtype x = d \<Longrightarrow> astype d x = x"
  by (cases x; cases d) simp_all

text \<open>
  A table resolved from a dictionary of well-formed arrays satisfies the invariant the
  scorers rely on, and so does its reading as a table of real numbers.
\<close>

lemma convert_wf_kv:
  assumes "convert_dict_to_keyedvectors dic = Inr kv"
    and "list_all (\<lambda>p. length (elems (snd p)) = prod_list (shape (snd p))) dic"
  shows "wf_kv kv"
proof -
  note c = convert_Inr [OF assms(1)]
  have "list_all (\<lambda>p. snd p < length (vectors kv)) (key_to_index kv)"
    by (auto simp: c(1,2) stack_rows_def Let_def list_all_iff dest!: set_zip_rightD)
  moreover have "list_all (\<lambda>row. length row = vector_size kv) (vectors kv)"
    using c(3) assms(2) by (auto simp: c(2) stack_rows_def Let_def list_all_iff)
  ultimately show ?thesis by (simp add: wf_kv_def)
qed

lemma wf_kv_float_table: "wf_kv kv \<Longrightarrow> wf_kv (float_table kv)"
  by (simp add: wf_kv_def float_table_def list_all_iff)

text \<open>
  C7, as stated: resolution checks that every value is a 1-dimensional numeric vector and
  fails otherwise.  A mapping whose only value is a 1-dimensional array of the strings
  \<open>x\<close> and \<open>y\<close>, which is no numeric vector, is resolved into a table without any error.
\<close>

theorem dict_of_string_array_resolves:
  "convert_dict_to_keyedvectors [(''a'', NDArray [2] [Object (PStr ''x''), Object (PStr ''y'')])]
     = Inr \<lparr>vector_size = 2, key_to_index = [(''a'', 0)],
            vectors = [[Object (PStr ''x''), Object (PStr ''y'')]]\<rparr>
   \<and> load_keyedvectors (\<lambda>name. Inl KeyError)
        (DictModel [(''a'', NDArray [2] [Object (PStr ''x''), Object (PStr ''y'')])]) None
     = Inr \<lparr>vector_size = 2, key_to_index = [(''a'', 0)],
            vectors = [[Object (PStr ''x''), Object (PStr ''y'')]]\<rparr>"
  by (simp add: load_keyedvectors_def convert_cases stack_rows_def result_type_def)

text \<open>
  C7, amended.  When the embedding source is a mapping, resolution fails with
  \<open>StopIteration\<close> when the mapping is empty; with an assertion error when the first
  value is not a numpy array or is not 1-dimensional; and with the error of stacking
  arrays of different shapes when a later value has, as an array, another shape than the
  first.  In every other case it succeeds, with the keys in order as vocabulary and the
  stacked values as vectors: only the first value is checked to be a numpy array, and the
  elements are not looked at.
\<close>

theorem dict_resolution_outcome:
  "load_keyedvectors api_load (DictModel dic) model_name =
     (case dic of
        [] \<Rightarrow> Inl StopIteration
      | (k0, arr) # rest \<Rightarrow>
          if isinstance_ndarray arr \<and> length (shape arr) = 1 then
            (if list_all (\<lambda>p. shape (snd p) = shape arr) rest then
               Inr \<lparr>vector_size = shape arr ! 0,
                    key_to_index = zip (map fst dic) [0..<length dic],
                    vectors = stack_rows (map snd dic)\<rparr>
             else Inl (ValueError ''all input arrays must have the same shape''))
          else Inl AssertionError)"
proof (cases dic)
  case Nil
  then show ?thesis
    by (simp add: load_keyedvectors_def convert_dict_to_keyedvectors_def)
next
  case (Cons p rest)
  obtain k0 arr where p: "p = (k0, arr)" by (cases p)
  show ?thesis
    unfolding Cons p
    by (simp add: load_keyedvectors_def convert_cases list_all_iff del: upt_Suc)
qed

theorem dict_resolution_outcome_witness:
  "load_keyedvectors (\<lambda>name. Inl KeyError)
      (DictModel [(''a'', NDArray [2] [Float64 1, Float64 2]),
                  (''b'', NDArray [3] [Float64 1, Float64 2, Float64 3])]) None
     = Inl (ValueError ''all input arrays must have the same shape'')
   \<and> load_keyedvectors (\<lambda>name. Inl KeyError)
      (DictModel [(''a'', Other [2] [Float64 1, Float64 2]),
                  (''b'', NDArray [2] [Float64 3, Float64 4])]) None
     = Inl AssertionError
   \<and> load_keyedvectors (\<lambda>name. Inl KeyError)
      (DictModel [(''a'', NDArray [2] [Float64 1, Float64 2]),
                  (''b'', Other [2] [Float64 3, Float64 4])]) None
     = Inr \<lparr>vector_size = 2, key_to_index = [(''a'', 0), (''b'', 1)],
            vectors = [[Float64 1, Float64 2], [Float64 3, Float64 4]]\<rparr>"
  using
    dict_resolution_outcome [of "\<lambda>name. Inl KeyError"
      "[(''a'', NDArray [2] [Float64 1, Float64 2]),
        (''b'', NDArray [3] [Float64 1, Float64 2, Float64 3])]" None]
    dict_resolution_outcome [of "\<lambda>name. Inl KeyError"
      "[(''a'', Other [2] [Float64 1, Float64 2]),
        (''b'', NDArray [2] [Float64 3, Float64 4])]" None]
    dict_resolution_outcome [of "\<lambda>name. Inl KeyError"
      "[(''a'', NDArray [2] [Float64 1, Float64 2]),
        (''b'', Other [2] [Float64 3, Float64 4])]" None]
  by (simp add: stack_rows_def result_type_def)

text \<open>
  C8, as stated: for every mapping, the vector the resolved table returns for a key is
  the original array, bit for bit.  A mapping with an array of integers for \<open>a\<close> and an
  array of floats for \<open>b\<close>: stacking promotes the integers to floats, and the vector of
  \<open>a\<close> comes back as floats, its first element \<open>2\<^sup>5\<^sup>3 + 1\<close> rounded to \<open>2\<^sup>5\<^sup>3\<close>.
\<close>

theorem mixed_dtypes_not_roundtrip:
  "convert_dict_to_keyedvectors
      [(''a'', NDArray [2] [Int64 9007199254740993, Int64 2]),
       (''b'', NDArray [2] [Float64 (1 / 2), Float64 4])]
     = Inr \<lparr>vector_size = 2, key_to_index = [(''a'', 0), (''b'', 1)],
            vectors = [[Float64 9007199254740992, Float64 2], [Float64 (1 / 2), Float64 4]]\<rparr>
   \<and> get_vector \<lparr>vector_size = 2, key_to_index = [(''a'', 0), (''b'', 1)],
            vectors = [[Float64 9007199254740992, Float64 2], [Float64 (1 / 2), Float64 4]]\<rparr>
        ''a''
     = Inr [Float64 9007199254740992, Float64 2]
   \<and> [Float64 9007199254740992, Float64 2] \<noteq> [Int64 9007199254740993, Int64 2]"
  by code_simp

text \<open>
  C8, amended.  When a mapping (a dictionary: its keys are distinct) whose arrays all
  have one dtype \<open>d\<close> is resolved into a table, the table's vector for every key \<open>k\<close> of
  the mapping is the array \<open>v\<close> the mapping holds for \<open>k\<close>: the same elements, and the
  shape \<open>[vector_size]\<close> of \<open>v\<close>; the vocabulary of the table is the keys of the mapping
  in their order.
\<close>

theorem dict_resolution_roundtrip:
  assumes "convert_dict_to_keyedvectors dic = Inr kv"
    and "distinct (map fst dic)" and "(k, v) \<in> set dic"
    and "list_all (\<lambda>p. list_all (\<lambda>x. scalar_dtype x = d) (elems (snd p))) dic"
  shows "get_vector kv k = Inr (elems v) \<and> shape v = [vector_size kv]
       \<and> map fst (key_to_index kv) = map fst dic"
proof -
  note c = convert_Inr [OF assms(1)]
  let ?all = "concat (map (elems \<circ> snd) dic)"
  have all: "list_all (\<lambda>x. scalar_dtype x = d) ?all"
    using assms(4) by (auto simp: list_all_iff)
  have "map (astype (result_type ?all)) (elems v) = elems v"
  proof (cases "elems v = []")
    case True
    then show ?thesis by simp
  next
    case False
    with assms(3) have "?all \<noteq> []" by (auto simp: concat_eq_Nil_conv intro!: bexI [of _ "(k, v)"])
    then have "result_type ?all = d" by (rule result_type_same [OF all])
    moreover have "\<forall>x \<in> set (elems v). scalar_dtype x = d"
      using assms(3,4) by (auto simp: list_all_iff)
    ultimately show ?thesis by (simp add: astype_same map_idI)
  qed
  then have "get_vector kv k = Inr (elems v)"
    by (simp add: convert_get_vector [OF assms(1-3)])
  moreover have "shape v = [vector_size kv]"
    using c(3) assms(3) by (auto simp: list_all_iff)
  moreover have "map fst (key_to_index kv) = map fst dic"
    by (simp add: c(1))
  ultimately show ?thesis by simp
qed

theorem dict_resolution_roundtrip_witness:
  "convert_dict_to_keyedvectors
      [(''a'', NDArray [2] [Float64 1, Float64 2]), (''b'', NDArray [2] [Float64 3, Float64 4])]
     = Inr \<lparr>vector_size = 2, key_to_index = [(''a'', 0), (''b'', 1)],
            vectors = [[Float64 1, Float64 2], [Float64 3, Float64 4]]\<rparr>
   \<and> distinct (map fst [(''a'', NDArray [2] [Float64 1, Float64 2]),
                         (''b'', NDArray [2] [Float64 3, Float64 4])])
   \<and> (''b'', NDArray [2] [Float64 3, Float64 4])
        \<in> set [(''a'', NDArray [2] [Float64 1, Float64 2]),
                (''b'', NDArray [2] [Float64 3, Float64 4])]
   \<and> get_vector \<lparr>vector_size = 2, key_to_index = [(''a'', 0), (''b'', 1)],
                  vectors = [[Float64 1, Float64 2], [Float64 3, Float64 4]]\<rparr> ''b''
       = Inr [Float64 3, Float64 4]
   \<and> map fst (key_to_index \<lparr>vector_size = 2, key_to_index = [(''a'', 0), (''b'', 1)],
                  vectors = [[Float64 1, Float64 2], [Float64 3, Float64 4]]\<rparr>) = [''a'', ''b'']"
proof -
  have c: "convert_dict_to_keyedvectors
             [(''a'', NDArray [2] [Float64 1, Float64 2]),
              (''b'', NDArray [2] [Float64 3, Float64 4])]
         = Inr \<lparr>vector_size = 2, key_to_index = [(''a'', 0), (''b'', 1)],
                vectors = [[Float64 1, Float64 2], [Float64 3, Float64 4]]\<rparr>"
    by (simp add: convert_cases stack_rows_def result_type_def)
  show ?thesis
    using c dict_resolution_roundtrip
      [OF c, of "''b''" "NDArray [2] [Float64 3, Float64 4]" float64]
    by simp
qed

subsection \<open>WordEmbeddingsPairwiseSimilarity: the loops\<close>

lemma get_vector_in_vocab:
  assumes "wf_kv wv" "in_vocab wv w"
  shows "get_vector wv w = Inr (vec_of wv w)"
proof -
  from assms(2) obtain i where m: "map_of (key_to_index wv) w = Some i"
    by (auto simp: in_vocab_def weak_map_of_SomeI dest!: weak_map_of_SomeI)
  then have "(w, i) \<in> set (key_to_index wv)" by (rule map_of_SomeD)
  with assms(1) have "i < length (vectors wv)"
    by (auto simp: wf_kv_def list_all_iff)
  then show ?thesis by (simp add: get_vector_def vec_of_def m)
qed

lemma similarity_in_vocab:
  assumes "wf_kv wv" "in_vocab wv a" "in_vocab wv b"
  shows "similarity wv a b = Inr (sim_of wv a b)"
  using assms by (simp add: similarity_def sim_of_def get_vector_in_vocab)

lemma add_sims_simps:
  "add_sims acc [] = acc"
  "add_sims (s, c) (r # rs) = add_sims (num_add s (NpFloat (Some r)), c + 1) rs"
  "add_sims acc (xs @ ys) = add_sims (add_sims acc xs) ys"
  by (simp_all add: add_sims_def)

lemma num_add_np: "num_add s (NpFloat (Some r)) = NpFloat (opt_add (num_val s) (Some r))"
  by (cases s) simp_all

lemma add_sims_value:
  "add_sims (s, c) rs =
     (if rs = [] then (s, c)
      else (NpFloat (opt_add (num_val s) (Some (sum_list rs))), c + length rs))"
proof (induction rs arbitrary: s c)
  case Nil
  then show ?case by (simp add: add_sims_simps)
next
  case (Cons r rs)
  show ?case
    by (cases "num_val s") (simp_all add: add_sims_simps Cons.IH num_add_np add.assoc)
qed

lemma word_pair_step_value:
  assumes "wf_kv wv"
  shows "word_pair_step wv w1 w2 (s, c) =
           Inr (if in_vocab wv w1 \<and> in_vocab wv w2
                then (num_add s (NpFloat (Some (sim_of wv w1 w2))), c + 1) else (s, c))"
  using assms by (simp add: word_pair_step_def similarity_in_vocab)

lemma inner_loop:
  assumes "wf_kv wv"
  shows "foldM (word_pair_step wv w1) l2 acc =
           Inr (add_sims acc (if in_vocab wv w1
                              then map (sim_of wv w1) (filter (in_vocab wv) l2) else []))"
proof (induction l2 arbitrary: acc)
  case Nil
  then show ?case by (simp add: add_sims_simps)
next
  case (Cons w2 l2)
  obtain s c where acc: "acc = (s, c)" by (cases acc)
  show ?case
    using assms
    by (simp add: acc word_pair_step_value Cons.IH add_sims_simps)
qed

lemma word_loops:
  assumes "wf_kv wv"
  shows "foldM (\<lambda>word1. foldM (word_pair_step wv word1) l2) l1 acc
           = Inr (add_sims acc (pair_sims wv l1 l2))"
proof (induction l1 arbitrary: acc)
  case Nil
  then show ?case by (simp add: add_sims_simps pair_sims_def)
next
  case (Cons w1 l1)
  show ?case
    using Cons.IH
    by (simp add: inner_loop [OF assms] pair_sims_def add_sims_simps)
qed

lemma pair_sims_empty:
  "pair_sims wv l1 l2 = [] \<longleftrightarrow>
     \<not> (\<exists>a \<in> set l1. \<exists>b \<in> set l2. in_vocab wv a \<and> in_vocab wv b)"
  by (auto simp: pair_sims_def filter_empty_conv)

lemma pairwise_step_value:
  assumes "wf_kv wv"
  shows "pairwise_step wv topk (list1, list2) (sum_sim, count) =
     (if pair_sims wv (slice_to topk list1) (slice_to topk list2) = [] then Inl ZeroDivisionError
      else Inr (num_add sum_sim
                  (NpFloat (Some (sum_list (pair_sims wv (slice_to topk list1) (slice_to topk list2))
                     / real (length (pair_sims wv (slice_to topk list1) (slice_to topk list2)))))),
                count + 1))"
  by (simp add: pairwise_step_def word_loops [OF assms] add_sims_value)

lemma foldM_first_error:
  assumes "p \<in> set ps" and "\<And>acc. f p acc = Inl E"
    and "\<And>q acc e. f q acc = Inl e \<Longrightarrow> e = E"
  shows "foldM f ps acc = Inl E"
  using assms(1)
proof (induction ps arbitrary: acc)
  case Nil
  then show ?case by simp
next
  case (Cons q ps)
  show ?case
  proof (cases "f q acc")
    case (Inl e)
    then show ?thesis using assms(3) by simp
  next
    case (Inr acc')
    with Cons assms(2) have "p \<in> set ps" by auto
    with Inr Cons.IH show ?thesis by simp
  qed
qed

text \<open>
  C10.  For a table that satisfies its invariant, at least two topics and \<open>topk\<close> not
  above the length of the first topic: if for some pair of topics no word of the first
  slice and word of the second slice are both in the vocabulary, the score call of
  \<open>WordEmbeddingsPairwiseSimilarity\<close> raises \<open>ZeroDivisionError\<close>; it neither returns a
  value nor skips the pair.
\<close>

theorem pairwise_pair_without_vocabulary_raises:
  assumes "wf_kv wv" and "topics mo = Some ts" and "2 \<le> length ts"
    and "topk \<le> int (length (hd ts))"
    and "(list1, list2) \<in> set (combinations2 ts)"
    and "\<not> (\<exists>a \<in> set (slice_to topk list1). \<exists>b \<in> set (slice_to topk list2).
              in_vocab wv a \<and> in_vocab wv b)"
  shows "WordEmbeddingsPairwiseSimilarity_score wv topk mo = Inl ZeroDivisionError"
proof -
  obtain t0 rest where ts: "ts = t0 # rest"
    using assms(3) by (cases ts) auto
  have e: "pair_sims wv (slice_to topk list1) (slice_to topk list2) = []"
    using assms(6) by (simp add: pair_sims_empty)
  have "foldM (pairwise_step wv topk) (combinations2 ts) (PyInt 0, 0) = Inl ZeroDivisionError"
  proof (rule foldM_first_error [OF assms(5)])
    fix acc :: "number \<times> nat"
    show "pairwise_step wv topk (list1, list2) acc = Inl ZeroDivisionError"
      by (cases acc) (simp add: pairwise_step_value [OF assms(1)] e)
  next
    fix q and acc :: "number \<times> nat" and e
    assume "pairwise_step wv topk q acc = Inl e"
    then show "e = ZeroDivisionError"
      by (cases q; cases acc) (auto simp: pairwise_step_value [OF assms(1)] split: if_splits)
  qed
  then show ?thesis
    using assms(2,4) by (simp add: WordEmbeddingsPairwiseSimilarity_score_def ts)
qed


theorem pairwise_pair_without_vocabulary_raises_witness:
  "wf_kv wv_ab
   \<and> topics \<lparr>topics = Some [[''a''], [''b''], [''c'']], topic_word_distribution = None\<rparr>
       = Some [[''a''], [''b''], [''c'']]
   \<and> 2 \<le> length [[''a''], [''b''], [''c'']]
   \<and> 1 \<le> int (length (hd [[''a''], [''b''], [''c'']]))
   \<and> ([''a''], [''c'']) \<in> set (combinations2 [[''a''], [''b''], [''c'']])
   \<and> \<not> (\<exists>a \<in> set (slice_to 1 [''a'']). \<exists>b \<in> set (slice_to 1 [''c'']).
            in_vocab wv_ab a \<and> in_vocab wv_ab b)
   \<and> WordEmbeddingsPairwiseSimilarity_score wv_ab 1
        \<lparr>topics = Some [[''a''], [''b''], [''c'']], topic_word_distribution = None\<rparr>
       = Inl ZeroDivisionError"
proof -
  have h: "wf_kv wv_ab"
    "topics \<lparr>topics = Some [[''a''], [''b''], [''c'']], topic_word_distribution = None\<rparr>
       = Some [[''a''], [''b''], [''c'']]"
    "2 \<le> length [[''a''], [''b''], [''c'']]"
    "1 \<le> int (length (hd [[''a''], [''b''], [''c'']]))"
    "([''a''], [''c'']) \<in> set (combinations2 [[''a''], [''b''], [''c'']])"
    "\<not> (\<exists>a \<in> set (slice_to 1 [''a'']). \<exists>b \<in> set (slice_to 1 [''c'']).
            in_vocab wv_ab a \<and> in_vocab wv_ab b)"
    by (simp_all add: wf_kv_def wv_ab_def slice_to_def in_vocab_def)
  from h pairwise_pair_without_vocabulary_raises [OF h] show ?thesis by simp
qed

subsection \<open>Identical topics\<close>




















end
